theory Spec2Isabelle
  imports Main "HOL-Library.Sublist"
begin

section \<open>Text primitives of the affiliate manager\<close>

text \<open>
  A Python \<open>str\<close> is modelled as a \<open>string\<close>, one \<open>char\<close> per code point, for code
  points below 256.  \<open>str.lower\<close>, the character class \<open>\w\<close> and case-insensitive
  matching are written out for that range as CPython defines them.
\<close>

definition lower_char :: "char \<Rightarrow> char" where
  "lower_char c =
     (let n = (of_char c :: nat)
      in if (65 \<le> n \<and> n \<le> 90) \<or> (192 \<le> n \<and> n \<le> 222 \<and> n \<noteq> 215)
         then char_of (n + 32) else c)"

definition lower :: "string \<Rightarrow> string" where
  "lower s = map lower_char s"

definition is_word :: "char \<Rightarrow> bool" where
  "is_word c =
     (let n = (of_char c :: nat)
      in (48 \<le> n \<and> n \<le> 57) \<or> (65 \<le> n \<and> n \<le> 90) \<or> n = 95 \<or> (97 \<le> n \<and> n \<le> 122)
         \<or> n \<in> {170, 178, 179, 181, 185, 186, 188, 189, 190}
         \<or> (192 \<le> n \<and> n \<noteq> 215 \<and> n \<noteq> 247))"

text \<open>\<open>needle in haystack\<close> on strings.\<close>

fun py_in :: "string \<Rightarrow> string \<Rightarrow> bool" where
  "py_in needle [] = (needle = [])"
| "py_in needle (x # xs) = (prefix needle (x # xs) \<or> py_in needle xs)"

text \<open>\<open>s.replace('_', ' ')\<close>.\<close>

definition replace_underscores :: "string \<Rightarrow> string" where
  "replace_underscores s = map (\<lambda>c. if c = CHR ''_'' then CHR '' '' else c) s"

text \<open>\<open>xs[:m]\<close> for an integer \<open>m\<close>: a negative bound counts from the end.\<close>

definition py_take :: "int \<Rightarrow> 'a list \<Rightarrow> 'a list" where
  "py_take m xs = (if 0 \<le> m then take (nat m) xs else take (length xs - nat (- m)) xs)"


section \<open>Products and the catalog\<close>

record AffiliateProduct =
  name :: string
  category :: string
  amazon_asin :: string
  clickbank_id :: string
  price_range :: string
  description :: string
  keywords_list :: "string list"
  amazon_url :: string
  clickbank_url :: string

definition load_affiliate_products :: "AffiliateProduct list" where
  "load_affiliate_products =
    [ \<lparr> name = ''Hatch Baby Rest Sound Machine'', category = ''sound_machine'',
        amazon_asin = ''B078K2XMJY'', clickbank_id = '''', price_range = ''$60-80'',
        description = ''Smart sound machine with app control and night light'',
        keywords_list = [''sound machine'', ''white noise'', ''night light'', ''sleep environment''],
        amazon_url = ''https://amazon.com/dp/B078K2XMJY'', clickbank_url = '''' \<rparr>,
      \<lparr> name = ''Baby Sleep Miracle Guide'', category = ''sleep_guide'',
        amazon_asin = '''', clickbank_id = ''babysleep1'', price_range = ''$37-47'',
        description = ''Complete baby sleep training system by clinical psychologist'',
        keywords_list = [''sleep training'', ''sleep guide'', ''baby sleep method'', ''sleep schedule''],
        amazon_url = '''', clickbank_url = ''https://babysleep.com/special-offer'' \<rparr>,
      \<lparr> name = ''Nested Bean Zen Sack Sleep Sack'', category = ''sleep_sack'',
        amazon_asin = ''B07QKZJ8Q1'', clickbank_id = '''', price_range = ''$30-40'',
        description = ''Weighted sleep sack that mimics parent'' @ [CHR 0x27] @ ''s touch'',
        keywords_list = [''sleep sack'', ''swaddle'', ''weighted'', ''safe sleep''],
        amazon_url = ''https://amazon.com/dp/B07QKZJ8Q1'', clickbank_url = '''' \<rparr>,
      \<lparr> name = ''Owlet Smart Sock 3'', category = ''baby_monitor'',
        amazon_asin = ''B077QNZ5DG'', clickbank_id = '''', price_range = ''$250-300'',
        description = ''Smart baby monitor that tracks heart rate and oxygen'',
        keywords_list = [''baby monitor'', ''smart sock'', ''heart rate'', ''peace of mind''],
        amazon_url = ''https://amazon.com/dp/B077QNZ5DG'', clickbank_url = '''' \<rparr>,
      \<lparr> name = ''The Happy Sleeper Book'', category = ''sleep_book'',
        amazon_asin = ''0143108808'', clickbank_id = '''', price_range = ''$15-20'',
        description = ''Evidence-based approach to baby and toddler sleep'',
        keywords_list = [''sleep book'', ''sleep training book'', ''gentle methods''],
        amazon_url = ''https://amazon.com/dp/0143108808'', clickbank_url = '''' \<rparr>,
      \<lparr> name = ''Blackout Curtains for Nursery'', category = ''room_darkening'',
        amazon_asin = ''B07GXZQ8VG'', clickbank_id = '''', price_range = ''$25-35'',
        description = ''Room darkening curtains for better baby sleep'',
        keywords_list = [''blackout curtains'', ''room darkening'', ''sleep environment''],
        amazon_url = ''https://amazon.com/dp/B07GXZQ8VG'', clickbank_url = '''' \<rparr>,
      \<lparr> name = ''Baby Shusher Sleep Miracle'', category = ''sound_machine'',
        amazon_asin = ''B00D2JN87I'', clickbank_id = '''', price_range = ''$35-45'',
        description = ''Rhythmic shushing sound to soothe babies to sleep'',
        keywords_list = [''shusher'', ''soothing sounds'', ''baby sleep aid''],
        amazon_url = ''https://amazon.com/dp/B00D2JN87I'', clickbank_url = '''' \<rparr>,
      \<lparr> name = ''Marpac Dohm White Noise Machine'', category = ''sound_machine'',
        amazon_asin = ''B000KUHFGM'', clickbank_id = '''', price_range = ''$45-55'',
        description = ''Natural white noise machine with adjustable tone'',
        keywords_list = [''white noise machine'', ''natural sound'', ''sleep machine''],
        amazon_url = ''https://amazon.com/dp/B000KUHFGM'', clickbank_url = '''' \<rparr> ]"

text \<open>
  The manager object: the catalog built by \<open>__init__\<close> and the configuration values the
  methods read.  \<open>clickbank_affiliate\<close> is the value of
  \<open>config['monetization']['affiliate_programs'][0].get('clickbank_id', 'defaultid')\<close>,
  \<open>adsense_enabled\<close> the truth value of \<open>config['monetization']['google_adsense']['enabled']\<close>.
\<close>

record AffiliateManager =
  products :: "AffiliateProduct list"
  amazon_associate_id :: string
  clickbank_affiliate :: string
  adsense_enabled :: bool
  adsense_client_id :: string


section \<open>Product relevance scorer\<close>

text \<open>The body of the loop over \<open>self.products\<close> in \<open>find_relevant_products\<close>.\<close>

definition relevance_score :: "AffiliateProduct \<Rightarrow> string \<Rightarrow> nat" where
  "relevance_score product content =
     (let content_lower = lower content;
          score = foldl (\<lambda>s keyword. if py_in (lower keyword) content_lower then s + 1 else s)
                        0 (keywords_list product)
      in if py_in (replace_underscores (category product)) content_lower
         then score + 2 else score)"

definition scored_products :: "AffiliateProduct list \<Rightarrow> string \<Rightarrow> (AffiliateProduct \<times> nat) list" where
  "scored_products ps content =
     filter (\<lambda>(p, s). s > 0) (map (\<lambda>p. (p, relevance_score p content)) ps)"

text \<open>
  \<open>list.sort(key=lambda x: x[1], reverse=True)\<close> is a stable sort by descending key; it
  is modelled by the stable insertion sort on the negated score.
\<close>

definition sort_by_relevance :: "(AffiliateProduct \<times> nat) list \<Rightarrow> (AffiliateProduct \<times> nat) list" where
  "sort_by_relevance rel = sort_key (\<lambda>(p, s). - int s) rel"

definition find_relevant_products ::
    "AffiliateManager \<Rightarrow> string \<Rightarrow> int \<Rightarrow> AffiliateProduct list" where
  "find_relevant_products self content max_products =
     map fst (py_take max_products (sort_by_relevance (scored_products (products self) content)))"


section \<open>Regular expressions used by the rewriter\<close>

text \<open>
  The patterns of the source are built from a few combinators, each the backtracking
  matcher of \<open>re\<close> for that construct.  A matcher is applied at one position of the
  subject: it receives the character before the position (\<open>None\<close> at the start) and the
  text from the position on, and returns how many characters the first successful
  alternative consumes.  The continuation argument is the rest of the pattern.
\<close>

type_synonym matcher = "char option \<Rightarrow> string \<Rightarrow> nat option"

definition nl :: string where
  "nl = [CHR 0x0A]"

definition accept :: matcher where
  "accept prev s = Some 0"

text \<open>A literal, compared case-insensitively under \<open>re.IGNORECASE\<close>.\<close>

definition lit_prefix :: "bool \<Rightarrow> string \<Rightarrow> string \<Rightarrow> bool" where
  "lit_prefix ignorecase l s =
     (length l \<le> length s \<and>
      (if ignorecase then lower (take (length l) s) = lower l else take (length l) s = l))"

definition lit :: "bool \<Rightarrow> string \<Rightarrow> matcher \<Rightarrow> matcher" where
  "lit ignorecase l k prev s =
     (if lit_prefix ignorecase l s
      then map_option (\<lambda>r. length l + r)
             (k (if l = [] then prev else Some (last (take (length l) s))) (drop (length l) s))
      else None)"

text \<open>\<open>\b\<close>: exactly one of the two neighbours is a word character.\<close>

definition word_boundary :: "char option \<Rightarrow> string \<Rightarrow> bool" where
  "word_boundary prev s =
     ((case prev of None \<Rightarrow> False | Some c \<Rightarrow> is_word c)
        \<noteq> (case s of [] \<Rightarrow> False | c # _ \<Rightarrow> is_word c))"

definition bnd :: "matcher \<Rightarrow> matcher" where
  "bnd k prev s = (if word_boundary prev s then k prev s else None)"

text \<open>
  \<open>.*?\<close>: the rest of the pattern is tried first, then one more character is consumed;
  without \<open>re.DOTALL\<close> the dot does not match a newline.
\<close>

fun lazy_dots :: "bool \<Rightarrow> matcher \<Rightarrow> matcher" where
  "lazy_dots dotall k prev [] = k prev []"
| "lazy_dots dotall k prev (x # xs) =
     (case k prev (x # xs) of
        Some r \<Rightarrow> Some r
      | None \<Rightarrow> if \<not> dotall \<and> x = CHR 0x0A then None
                else map_option Suc (lazy_dots dotall k (Some x) xs))"

text \<open>\<open>[^>]*\<close>: one more character is consumed first, then the rest of the pattern is tried.\<close>

fun star_not_gt :: "matcher \<Rightarrow> matcher" where
  "star_not_gt k prev [] = k prev []"
| "star_not_gt k prev (x # xs) =
     (if x \<noteq> CHR ''>''
      then (case star_not_gt k (Some x) xs of
              Some r \<Rightarrow> Some (Suc r)
            | None \<Rightarrow> k prev (x # xs))
      else k prev (x # xs))"

text \<open>\<open>re.search\<close>: is there a match at some position, scanning from the left.\<close>

fun re_search_from :: "matcher \<Rightarrow> char option \<Rightarrow> string \<Rightarrow> bool" where
  "re_search_from m prev [] = (m prev [] \<noteq> None)"
| "re_search_from m prev (x # xs) = (m prev (x # xs) \<noteq> None \<or> re_search_from m (Some x) xs)"

definition re_search :: "matcher \<Rightarrow> string \<Rightarrow> bool" where
  "re_search m s = re_search_from m None s"

text \<open>
  \<open>re.finditer\<close>, as the list of matched texts (\<open>match.group()\<close>).  After a match of \<open>n\<close>
  characters the scan resumes behind it; \<open>skip\<close> counts the characters of the current
  match still to pass.  After an empty match the scan moves on by one character.
\<close>

fun re_finditer_from :: "matcher \<Rightarrow> char option \<Rightarrow> nat \<Rightarrow> string \<Rightarrow> string list" where
  "re_finditer_from m prev skip [] =
     (if skip = 0 then (case m prev [] of Some n \<Rightarrow> [[]] | None \<Rightarrow> []) else [])"
| "re_finditer_from m prev skip (x # xs) =
     (if skip > 0 then re_finditer_from m (Some x) (skip - 1) xs
      else case m prev (x # xs) of
             None \<Rightarrow> re_finditer_from m (Some x) 0 xs
           | Some n \<Rightarrow> take n (x # xs) # re_finditer_from m (Some x) (n - 1) xs)"

definition re_finditer :: "matcher \<Rightarrow> string \<Rightarrow> string list" where
  "re_finditer m s = re_finditer_from m None 0 s"

text \<open>
  \<open>re.sub(pattern, repl, s, count)\<close>: \<open>repl\<close> maps the matched text to its replacement and
  \<open>left\<close> is the number of replacements still allowed (\<open>None\<close> for \<open>count=0\<close>, no limit).
\<close>

fun re_sub_from ::
    "matcher \<Rightarrow> (string \<Rightarrow> string) \<Rightarrow> nat option \<Rightarrow> char option \<Rightarrow> nat \<Rightarrow> string \<Rightarrow> string" where
  "re_sub_from m repl left prev skip [] =
     (if skip = 0 \<and> left \<noteq> Some 0
      then (case m prev [] of Some n \<Rightarrow> repl [] | None \<Rightarrow> [])
      else [])"
| "re_sub_from m repl left prev skip (x # xs) =
     (if skip > 0 then re_sub_from m repl left (Some x) (skip - 1) xs
      else if left = Some 0 then x # xs
      else case m prev (x # xs) of
             None \<Rightarrow> x # re_sub_from m repl left (Some x) 0 xs
           | Some n \<Rightarrow>
               (if n = 0
                then repl [] @ x # re_sub_from m repl (map_option (\<lambda>c. c - 1) left) (Some x) 0 xs
                else repl (take n (x # xs))
                       @ re_sub_from m repl (map_option (\<lambda>c. c - 1) left) (Some x) (n - 1) xs))"

definition re_sub :: "matcher \<Rightarrow> (string \<Rightarrow> string) \<Rightarrow> nat \<Rightarrow> string \<Rightarrow> string" where
  "re_sub m repl count s = re_sub_from m repl (if count = 0 then None else Some count) None 0 s"

text \<open>The three patterns of the source.\<close>

definition keyword_pattern :: "string \<Rightarrow> matcher" where
  \<comment> \<open>\<open>rf'\b{re.escape(keyword)}\b'\<close> with \<open>re.IGNORECASE\<close>\<close>
  "keyword_pattern keyword = bnd (lit True keyword (bnd accept))"

definition conclusion_pattern :: matcher where
  \<comment> \<open>\<open>r'(<h2[^>]*>.*?conclusion.*?</h2>)'\<close> with \<open>re.IGNORECASE\<close>\<close>
  "conclusion_pattern =
     lit True ''<h2'' (star_not_gt (lit True ''>''
       (lazy_dots False (lit True ''conclusion'' (lazy_dots False (lit True ''</h2>'' accept))))))"

definition h2_pattern :: matcher where
  \<comment> \<open>\<open>r'(</h2>.*?<p>.*?</p>)'\<close> with \<open>re.DOTALL\<close>\<close>
  "h2_pattern =
     lit False ''</h2>'' (lazy_dots True (lit False ''<p>'' (lazy_dots True (lit False ''</p>'' accept))))"


section \<open>Affiliate links\<close>

text \<open>
  \<open>urllib.parse.quote_plus\<close> on one character: letters, digits and \<open>_.-~\<close> are kept, a
  space becomes \<open>+\<close>, every other character is the percent-escape of its UTF-8 bytes.
\<close>

definition hex_digit :: "nat \<Rightarrow> char" where
  "hex_digit d = ''0123456789ABCDEF'' ! (d mod 16)"

definition percent_byte :: "nat \<Rightarrow> string" where
  "percent_byte b = [CHR ''%'', hex_digit (b div 16), hex_digit b]"

definition quote_plus_char :: "char \<Rightarrow> string" where
  "quote_plus_char c =
     (let n = (of_char c :: nat)
      in if (48 \<le> n \<and> n \<le> 57) \<or> (65 \<le> n \<and> n \<le> 90) \<or> (97 \<le> n \<and> n \<le> 122)
            \<or> c \<in> set ''_.-~'' then [c]
         else if c = CHR '' '' then ''+''
         else if n < 128 then percent_byte n
         else percent_byte (192 + n div 64) @ percent_byte (128 + n mod 64))"

definition quote_plus :: "string \<Rightarrow> string" where
  "quote_plus s = concat (map quote_plus_char s)"

definition generate_amazon_link :: "AffiliateManager \<Rightarrow> string \<Rightarrow> string \<Rightarrow> string" where
  "generate_amazon_link self asin keyword =
     ''https://www.amazon.com/dp/'' @ asin @ ''?''
       @ ''tag='' @ quote_plus (amazon_associate_id self)
       @ ''&linkCode=as2&camp=1789&creative=9325''
       @ (if keyword \<noteq> [] then ''&keywords='' @ quote_plus keyword else [])"

definition generate_clickbank_link :: "AffiliateManager \<Rightarrow> string \<Rightarrow> string \<Rightarrow> string" where
  "generate_clickbank_link self product_id tid =
     ''https://hop.clickbank.net/?affiliate='' @ clickbank_affiliate self
       @ ''&vendor='' @ product_id @ ''&tid='' @ (if tid = [] then ''default'' else tid)"

definition find_insertion_points :: "string \<Rightarrow> AffiliateProduct \<Rightarrow> string list" where
  "find_insertion_points content product =
     take 2 (concat (map (\<lambda>keyword. re_finditer (keyword_pattern keyword) content)
                         (keywords_list product)))"

definition insert_link_at_position ::
    "string \<Rightarrow> string \<Rightarrow> string \<Rightarrow> AffiliateProduct \<Rightarrow> string" where
  "insert_link_at_position content search_term link_text product =
     re_sub (keyword_pattern search_term) (\<lambda>matched. link_text) 1 content"

text \<open>One entry of the \<open>inserted_links\<close> list (the dictionary appended per insertion).\<close>

record inserted_link =
  link_product :: string
  link_category :: string
  link :: string
  position :: string

definition anchor :: "string \<Rightarrow> string \<Rightarrow> string" where
  \<comment> \<open>\<open>f'<a href="{link}" target="_blank" rel="noopener">{product.name}</a>'\<close>\<close>
  \<open>anchor url label =
     ''<a href="'' @ url @ ''" target="_blank" rel="noopener">'' @ label @ ''</a>''\<close>

text \<open>
  The body of the inner loop of \<open>insert_affiliate_links\<close>, on the pair of the current
  content and the links inserted so far.  \<open>product.keywords[0]\<close> is read only for a
  product that has an insertion point, hence a keyword.
\<close>

definition insert_at_point ::
    "AffiliateManager \<Rightarrow> AffiliateProduct \<Rightarrow> string \<times> inserted_link list \<Rightarrow> string
       \<Rightarrow> string \<times> inserted_link list" where
  "insert_at_point self product st point =
     (let content = fst st; inserted_links = snd st
      in if amazon_asin product \<noteq> [] then
           (let url = generate_amazon_link self (amazon_asin product)
                        (case keywords_list product of [] \<Rightarrow> [] | k # _ \<Rightarrow> k);
                link_text = anchor url (name product)
            in (insert_link_at_position content point link_text product,
                inserted_links @ [\<lparr> link_product = name product, link_category = category product,
                                     link = url, position = point \<rparr>]))
         else if clickbank_id product \<noteq> [] then
           (let url = generate_clickbank_link self (clickbank_id product) [];
                link_text = anchor url (name product)
            in (insert_link_at_position content point link_text product,
                inserted_links @ [\<lparr> link_product = name product, link_category = category product,
                                     link = url, position = point \<rparr>]))
         else (content, inserted_links))"

definition insert_for_product ::
    "AffiliateManager \<Rightarrow> string \<times> inserted_link list \<Rightarrow> AffiliateProduct
       \<Rightarrow> string \<times> inserted_link list" where
  "insert_for_product self st product =
     foldl (insert_at_point self product) st (find_insertion_points (fst st) product)"

definition insert_affiliate_links :: "AffiliateManager \<Rightarrow> string \<Rightarrow> string \<times> inserted_link list" where
  "insert_affiliate_links self content =
     foldl (insert_for_product self) (content, []) (find_relevant_products self content 3)"


section \<open>Recommendation block, email capture and ad unit\<close>

text \<open>
  The HTML templates are copied from the source.  Their headings hold a few decorative
  code points above 255; each is written as \<open>high_code_point\<close>, one character that is no
  word character, has no case and occurs in no pattern, so that lengths are preserved.
\<close>

definition high_code_point :: char where
  "high_code_point = CHR 0x1A"

definition recommendation_head :: string where
  \<open>recommendation_head =
     nl @ ''<div class="product-recommendations">'' @ nl
       @ ''    <h2>'' @ [high_code_point] @ [CHR 0xFC] @ [CHR 0xED] @ [CHR 0xB0]
       @ '' Recommended Products to Help Your Baby Sleep Better</h2>'' @ nl
       @ ''    <p>Based on the tips in this article, here are some products ''
       @ ''that many parents find helpful:</p>'' @ nl
       @ ''    <div class="product-grid">'' @ nl\<close>

definition product_card :: "AffiliateProduct \<Rightarrow> string \<Rightarrow> string \<Rightarrow> string" where
  \<open>product_card product url platform =
     nl @ ''        <div class="product-card">'' @ nl
       @ ''            <h3>'' @ name product @ ''</h3>'' @ nl
       @ ''            <p class="price">'' @ price_range product @ ''</p>'' @ nl
       @ ''            <p class="description">'' @ description product @ ''</p>'' @ nl
       @ ''            <a href="'' @ url
       @ ''" class="btn btn-affiliate" target="_blank" rel="noopener">'' @ nl
       @ ''                View on '' @ platform @ '' '' @ [high_code_point] @ [CHR 0xDC]
       @ [CHR 0xED] @ nl @ ''            </a>'' @ nl
       @ ''            <small class="affiliate-disclosure">As an Amazon Associate, ''
       @ ''we earn from qualifying purchases.</small>'' @ nl
       @ ''        </div>'' @ nl\<close>

definition recommendation_foot :: string where
  "recommendation_foot = nl @ ''    </div>'' @ nl @ ''</div>'' @ nl"

text \<open>The body of the loop of \<open>generate_recommendation_section\<close>, on the HTML built so far.\<close>

definition add_card :: "AffiliateManager \<Rightarrow> string \<Rightarrow> AffiliateProduct \<Rightarrow> string" where
  "add_card self html product =
     (if amazon_asin product \<noteq> [] then
        html @ product_card product (generate_amazon_link self (amazon_asin product) []) ''Amazon''
      else if clickbank_id product \<noteq> [] then
        html @ product_card product (generate_clickbank_link self (clickbank_id product) [])
                 ''Get Guide''
      else html)"

definition generate_recommendation_section ::
    "AffiliateManager \<Rightarrow> AffiliateProduct list \<Rightarrow> string" where
  "generate_recommendation_section self ps =
     foldl (add_card self) recommendation_head ps @ recommendation_foot"

text \<open>
  \<open>add_product_recommendations\<close>.  In the branch that calls \<open>re.sub\<close> the block is part of
  the replacement template \<open>f'{recommendation_html}\n\n\\1'\<close>, in which \<open>re\<close> reads a
  backslash as the start of an escape (and raises \<open>re.error\<close> on a bad one).  The model
  covers a block without backslash, where the template stands for the block, two
  newlines and the matched heading; for any other block the result is \<open>None\<close>.
\<close>

definition add_product_recommendations :: "AffiliateManager \<Rightarrow> string \<Rightarrow> string option" where
  "add_product_recommendations self content =
     (let relevant_products = find_relevant_products self content 3
      in if relevant_products = [] then Some content
         else (let recommendation_html = generate_recommendation_section self relevant_products
               in if re_search conclusion_pattern content then
                    (if CHR 0x5C \<in> set recommendation_html then None
                     else Some (re_sub conclusion_pattern
                                  (\<lambda>heading. recommendation_html @ nl @ nl @ heading) 0 content))
                  else Some (content @ nl @ nl @ recommendation_html)))"

definition email_capture_html :: string where
  \<open>email_capture_html =
     nl @ ''<div class="email-capture-box">'' @ nl
       @ ''    <div class="email-capture-content">'' @ nl
       @ ''        <h3>'' @ [high_code_point] @ [CHR 0xFC] @ [CHR 0xE9] @ [CHR 0xC5]
       @ '' Get Your FREE Baby Sleep Schedule Template</h3>'' @ nl
       @ ''        <p>Join over 10,000 parents who'' @ [CHR 0x27]
       @ ''ve downloaded our proven sleep schedule guide. Perfect for babies ''
       @ ''0-12 months!</p>'' @ nl
       @ ''        <form class="email-form" action="/subscribe" method="POST">'' @ nl
       @ ''            <input type="email" name="email" placeholder="Your email ''
       @ ''address" required>'' @ nl
       @ ''            <input type="hidden" name="lead_magnet" value="sleep_schedule_template">''
       @ nl @ ''            <button type="submit" class="btn btn-primary">Get My ''
       @ ''Free Template '' @ [high_code_point] @ [CHR 0xDC] @ [CHR 0xED] @ ''</button>''
       @ nl @ ''        </form>'' @ nl
       @ ''        <small>We respect your privacy. Unsubscribe anytime.</small>'' @ nl
       @ ''    </div>'' @ nl @ ''</div>'' @ nl\<close>

definition add_email_capture :: "string \<Rightarrow> string" where
  "add_email_capture content =
     (if re_search h2_pattern content
      then re_sub h2_pattern (\<lambda>section. section @ nl @ nl @ email_capture_html) 1 content
      else content)"

text \<open>
  \<open>str.split(sep)\<close> for a non-empty separator, \<open>sep.join\<close> and \<open>list.insert\<close>.
  \<open>split_once\<close> cuts at the first occurrence of the separator.
\<close>

fun split_once :: "string \<Rightarrow> string \<Rightarrow> (string \<times> string) option" where
  "split_once sep [] = (if sep = [] then Some ([], []) else None)"
| "split_once sep (x # xs) =
     (if prefix sep (x # xs) then Some ([], drop (length sep) (x # xs))
      else map_option (\<lambda>(a, r). (x # a, r)) (split_once sep xs))"

lemma split_once_decomp: "split_once sep s = Some (a, r) \<Longrightarrow> s = a @ sep @ r"
  by (induction s arbitrary: a) (auto split: if_splits simp: prefix_def)

function split_str :: "string \<Rightarrow> string \<Rightarrow> string list" where
  "split_str sep s =
     (if sep = [] then [s]
      else case split_once sep s of
             None \<Rightarrow> [s]
           | Some (a, r) \<Rightarrow> a # split_str sep r)"
  by pat_completeness auto
termination
proof (relation "measure (\<lambda>(sep, s). length s)")
  show "wf (measure (\<lambda>(sep, s). length s))" by simp
next
  fix sep s :: string and x2 :: "string \<times> string" and a r :: string
  assume ne: "sep \<noteq> []" and so: "split_once sep s = Some x2" and x2: "(a, r) = x2"
  from so x2 have "s = a @ sep @ r" by (simp add: split_once_decomp)
  then have "length s = length a + length sep + length r" by simp
  with ne show "((sep, r), (sep, s)) \<in> measure (\<lambda>(sep, s). length s)"
    by (cases sep) simp_all
qed

declare split_str.simps [simp del]

fun join_str :: "string \<Rightarrow> string list \<Rightarrow> string" where
  "join_str sep [] = []"
| "join_str sep [x] = x"
| "join_str sep (x # y # ys) = x @ sep @ join_str sep (y # ys)"

definition list_insert :: "nat \<Rightarrow> 'a \<Rightarrow> 'a list \<Rightarrow> 'a list" where
  "list_insert i x xs = take i xs @ [x] @ drop i xs"

definition in_article_ad :: "string \<Rightarrow> string" where
  \<open>in_article_ad client_id =
     nl @ ''<div class="ad-container in-article-ad">'' @ nl
       @ ''    <ins class="adsbygoogle"'' @ nl
       @ ''         style="display:block; text-align:center;"'' @ nl
       @ ''         data-ad-layout="in-article"'' @ nl
       @ ''         data-ad-format="fluid"'' @ nl @ ''         data-ad-client="'' @ client_id
       @ ''"'' @ nl @ ''         data-ad-slot="1234567891"></ins>'' @ nl
       @ ''    <script>'' @ nl
       @ ''         (adsbygoogle = window.adsbygoogle || []).push({});'' @ nl
       @ ''    </script>'' @ nl @ ''</div>'' @ nl\<close>

definition add_google_adsense_units :: "AffiliateManager \<Rightarrow> string \<Rightarrow> string" where
  "add_google_adsense_units self content =
     (if \<not> adsense_enabled self then content
      else (let client_id = adsense_client_id self;
                paragraphs = split_str ''</p>'' content
            in if length paragraphs \<ge> 3
               then join_str ''</p>''
                      (list_insert 2 (in_article_ad client_id @ ''</p>'') paragraphs)
               else content))"


section \<open>The pipeline\<close>

record monetization_report =
  affiliate_links :: "inserted_link list"
  email_captures :: nat
  ad_units :: nat
  product_recommendations :: nat

definition process_content ::
    "AffiliateManager \<Rightarrow> string \<Rightarrow> (string \<times> monetization_report) option" where
  "process_content self content0 =
     (let (content1, links) = insert_affiliate_links self content0
      in case add_product_recommendations self content1 of
           None \<Rightarrow> None
         | Some content2 \<Rightarrow>
             (let content3 = add_email_capture content2;
                  content4 = add_google_adsense_units self content3
              in Some (content4,
                   \<lparr> affiliate_links = links,
                     email_captures = (if length content3 > length content2 then 1 else 0),
                     ad_units = (if length content4 > length content3 then 1 else 0),
                     product_recommendations =
                       (if length content2 > length content1 then 1 else 0) \<rparr>)))"


section \<open>The configuration used in the examples\<close>

definition example_manager :: AffiliateManager where
  "example_manager =
     \<lparr> products = load_affiliate_products, amazon_associate_id = ''babysleep-20'',
       clickbank_affiliate = ''defaultid'', adsense_enabled = True,
       adsense_client_id = ''ca-pub-1234567890'' \<rparr>"


section \<open>Relevance scores\<close>

lemma foldl_count:
  "foldl (\<lambda>s k. if P k then s + 1 else s) (n::nat) ks = n + length (filter P ks)"
  by (induction ks arbitrary: n) simp_all

lemma relevance_score_unfold:
  "relevance_score product content =
     length (filter (\<lambda>keyword. py_in (lower keyword) (lower content)) (keywords_list product))
       + (if py_in (replace_underscores (category product)) (lower content) then 2 else 0)"
  by (simp add: relevance_score_def Let_def foldl_count)

text \<open>
  The score as the specification words it: one point per keyword that matches the
  content case-insensitively at word boundaries, two points for the category.
\<close>

definition spec_relevance_score :: "AffiliateProduct \<Rightarrow> string \<Rightarrow> nat" where
  "spec_relevance_score product content =
     length (filter (\<lambda>keyword. re_search (keyword_pattern keyword) content)
               (keywords_list product))
       + (if py_in (replace_underscores (category product)) (lower content) then 2 else 0)"

text \<open>
  C2, as stated, fails: the scorer tests \<open>keyword.lower() in content_lower\<close>, a plain
  substring test.  The keyword \<open>weighted\<close> of the third catalog product occurs in
  \<open>unweighted\<close> only as a fragment of a longer word, and still scores one point.
\<close>

theorem relevance_score_fragment_counterexample:
  "relevance_score (load_affiliate_products ! 2) ''an unweighted blanket'' = 1
     \<and> spec_relevance_score (load_affiliate_products ! 2) ''an unweighted blanket'' = 0"
  by code_simp

text \<open>
  C2, amended: the score of a product is the number of its keywords whose lower-cased
  form is a substring of the lower-cased content (word boundaries play no part), plus 2
  if the category with underscores replaced by spaces is a substring of the lower-cased
  content.
\<close>

theorem relevance_score_substring:
  "relevance_score product content =
     length (filter (\<lambda>keyword. py_in (lower keyword) (lower content)) (keywords_list product))
       + (if py_in (replace_underscores (category product)) (lower content) then 2 else 0)"
  by (rule relevance_score_unfold)

theorem relevance_score_substring_witness:
  "relevance_score (load_affiliate_products ! 2) ''an unweighted blanket''
     = length (filter (\<lambda>keyword. py_in (lower keyword) (lower ''an unweighted blanket''))
                 (keywords_list (load_affiliate_products ! 2)))
       + (if py_in (replace_underscores (category (load_affiliate_products ! 2)))
               (lower ''an unweighted blanket'') then 2 else 0)"
  using relevance_score_substring [of "load_affiliate_products ! 2" "''an unweighted blanket''"]
  by simp

lemma two_in_filter:
  assumes "a \<in> set xs" "b \<in> set xs" "a \<noteq> b" "P a" "P b"
  shows "2 \<le> length (filter P xs)"
proof -
  have "{a, b} \<subseteq> set (filter P xs)" using assms by simp
  then have "card {a, b} \<le> card (set (filter P xs))" by (intro card_mono) simp_all
  also have "\<dots> \<le> length (filter P xs)" by (rule card_length)
  finally show ?thesis using assms(3) by simp
qed

text \<open>
  C6, as stated, fails: the category bonus is added on top of the keyword points.  The
  content below contains the two keywords \<open>sound machine\<close> and \<open>white noise\<close> of the first
  catalog product, and its category \<open>sound machine\<close>; the score is 4, not 2.
\<close>

theorem two_keywords_score_counterexample:
  "''sound machine'' \<in> set (keywords_list (load_affiliate_products ! 0))
     \<and> ''white noise'' \<in> set (keywords_list (load_affiliate_products ! 0))
     \<and> py_in (lower ''sound machine'') (lower ''a sound machine with white noise'')
     \<and> py_in (lower ''white noise'') (lower ''a sound machine with white noise'')
     \<and> relevance_score (load_affiliate_products ! 0) ''a sound machine with white noise'' = 4"
  by code_simp

text \<open>
  C6, amended: for a content string that contains two distinct keywords of a product,
  the score of that product is at least 2; it is exactly 2 if and only if no further
  keyword entry of the product is contained and the category (underscores replaced by
  spaces) is not contained.
\<close>

theorem two_keywords_score:
  assumes "k1 \<in> set (keywords_list product)" "k2 \<in> set (keywords_list product)" "k1 \<noteq> k2"
    and "py_in (lower k1) (lower content)" "py_in (lower k2) (lower content)"
  shows "2 \<le> relevance_score product content
     \<and> (relevance_score product content = 2 \<longleftrightarrow>
          length (filter (\<lambda>k. py_in (lower k) (lower content)) (keywords_list product)) = 2
          \<and> \<not> py_in (replace_underscores (category product)) (lower content))"
  using two_in_filter [OF assms(1,2,3), of "\<lambda>k. py_in (lower k) (lower content)"] assms(4,5)
  by (auto simp: relevance_score_unfold)

theorem two_keywords_score_witness:
  "''white noise'' \<in> set (keywords_list (load_affiliate_products ! 0))
     \<and> ''night light'' \<in> set (keywords_list (load_affiliate_products ! 0))
     \<and> py_in (lower ''white noise'') (lower ''white noise and a night light'')
     \<and> py_in (lower ''night light'') (lower ''white noise and a night light'')
     \<and> relevance_score (load_affiliate_products ! 0) ''white noise and a night light'' = 2"
proof -
  have a: "''white noise'' \<in> set (keywords_list (load_affiliate_products ! 0))" by code_simp
  have b: "''night light'' \<in> set (keywords_list (load_affiliate_products ! 0))" by code_simp
  have c: "''white noise'' \<noteq> ''night light''" by simp
  have d: "py_in (lower ''white noise'') (lower ''white noise and a night light'')" by code_simp
  have e: "py_in (lower ''night light'') (lower ''white noise and a night light'')" by code_simp
  have f: "length (filter (\<lambda>k. py_in (lower k) (lower ''white noise and a night light''))
                     (keywords_list (load_affiliate_products ! 0))) = 2" by code_simp
  have g: "\<not> py_in (replace_underscores (category (load_affiliate_products ! 0)))
                   (lower ''white noise and a night light'')" by code_simp
  from two_keywords_score [OF a b c d e] f g
  have "relevance_score (load_affiliate_products ! 0) ''white noise and a night light'' = 2"
    by blast
  with a b d e show ?thesis by blast
qed


section \<open>Ranking\<close>

lemma sort_by_relevance_descending:
  "sorted_wrt (\<lambda>a b. snd b \<le> snd a) (sort_by_relevance rel)"
proof -
  have "sorted (map (\<lambda>(p, s). - int s) (sort_by_relevance rel))"
    unfolding sort_by_relevance_def by (rule sorted_sort_key)
  then show ?thesis
    by (simp add: sorted_wrt_map sorted_wrt_iff_nth_less case_prod_beta sorted_iff_nth_mono_less)
qed

lemma sort_by_relevance_stable: "filter (\<lambda>a. snd a = k) (sort_by_relevance rel) = filter (\<lambda>a. snd a = k) rel"
proof -
  have "filter (\<lambda>a. (\<lambda>(p, s). - int s) a = - int k) (sort_by_relevance rel)
      = filter (\<lambda>a. (\<lambda>(p, s). - int s) a = - int k) rel"
    unfolding sort_by_relevance_def by (rule sort_key_stable)
  then show ?thesis by (simp add: case_prod_beta)
qed

text \<open>
  C9: \<open>find_relevant_products\<close> returns the first \<open>max_products\<close> products of the ranking
  (hence at most that many), where the ranking holds, for every positive score, exactly
  the catalog products of that score in catalog order, holds no product of score 0, and
  is ordered by descending score.
\<close>

theorem find_relevant_products_ranking:
  assumes "0 \<le> max_products"
  shows "find_relevant_products self content max_products
           = map fst (take (nat max_products)
                        (sort_by_relevance (scored_products (products self) content)))
     \<and> length (find_relevant_products self content max_products) \<le> nat max_products
     \<and> (\<forall>k. map fst (filter (\<lambda>a. snd a = k)
                         (sort_by_relevance (scored_products (products self) content)))
              = (if k = 0 then []
                 else filter (\<lambda>p. relevance_score p content = k) (products self)))
     \<and> sorted_wrt (\<lambda>a b. snd b \<le> snd a)
          (sort_by_relevance (scored_products (products self) content))"
proof -
  have one: "find_relevant_products self content max_products
           = map fst (take (nat max_products)
                        (sort_by_relevance (scored_products (products self) content)))"
    using assms by (simp add: find_relevant_products_def py_take_def)
  have two: "length (find_relevant_products self content max_products) \<le> nat max_products"
    unfolding one by simp
  have three: "map fst (filter (\<lambda>a. snd a = k)
                         (sort_by_relevance (scored_products (products self) content)))
              = (if k = 0 then []
                 else filter (\<lambda>p. relevance_score p content = k) (products self))" for k
  proof -
    have "map fst (filter (\<lambda>a. snd a = k) (scored_products ps content))
            = (if k = 0 then [] else filter (\<lambda>p. relevance_score p content = k) ps)" for ps
      by (induction ps) (auto simp: scored_products_def)
    then show ?thesis by (simp only: sort_by_relevance_stable)
  qed
  from one two three sort_by_relevance_descending show ?thesis by blast
qed

theorem find_relevant_products_ranking_witness:
  "(0::int) \<le> 3
     \<and> map name (find_relevant_products example_manager
                   ''<h2>Sleep Environment</h2><p>A white noise machine helps.</p>'' 3)
         = [''Hatch Baby Rest Sound Machine'', ''Blackout Curtains for Nursery'',
            ''Marpac Dohm White Noise Machine'']
     \<and> length (find_relevant_products example_manager
                 ''<h2>Sleep Environment</h2><p>A white noise machine helps.</p>'' 3) \<le> nat 3"
proof -
  have h: "(0::int) \<le> 3" by simp
  have v: "map name (find_relevant_products example_manager
                   ''<h2>Sleep Environment</h2><p>A white noise machine helps.</p>'' 3)
         = [''Hatch Baby Rest Sound Machine'', ''Blackout Curtains for Nursery'',
            ''Marpac Dohm White Noise Machine'']" by code_simp
  from find_relevant_products_ranking [OF h, of example_manager
         "''<h2>Sleep Environment</h2><p>A white noise machine helps.</p>''"] h v
  show ?thesis by blast
qed


section \<open>Content without catalog keywords\<close>






section \<open>Properties of the regular-expression functions\<close>

text \<open>
  \<open>match_from m prev s i\<close> is the outcome of the matcher at position \<open>i\<close> of \<open>s\<close>, where
  \<open>prev\<close> is the character before \<open>s\<close>.
\<close>

definition match_from :: "matcher \<Rightarrow> char option \<Rightarrow> string \<Rightarrow> nat \<Rightarrow> nat option" where
  "match_from m prev s i = m (if i = 0 then prev else Some (s ! (i - 1))) (drop i s)"

lemma match_from_0 [simp]: "match_from m prev s 0 = m prev s"
  by (simp add: match_from_def)

lemma match_from_Suc [simp]: "match_from m prev (x # xs) (Suc i) = match_from m (Some x) xs i"
  by (cases i) (simp_all add: match_from_def)



lemma re_sub_from_no_match:
  "\<not> re_search_from m prev s \<Longrightarrow> re_sub_from m repl left prev 0 s = s"
  by (induction s arbitrary: prev) auto


lemma re_sub_from_length:
  assumes "\<And>g. length g \<le> length (repl g)"
  shows "length s - k \<le> length (re_sub_from m repl left prev k s)"
proof (induction s arbitrary: prev k left)
  case Nil
  then show ?case by simp
next
  case (Cons x xs)
  show ?case
  proof (cases "k > 0")
    case True
    with Cons.IH [of "k - 1" left "Some x"] show ?thesis by simp
  next
    case k0: False
    show ?thesis
    proof (cases "left = Some 0")
      case True
      with k0 show ?thesis by simp
    next
      case left: False
      show ?thesis
      proof (cases "m prev (x # xs)")
        case None
        with k0 left Cons.IH [of 0 left "Some x"] show ?thesis by simp
      next
        case (Some n)
        show ?thesis
        proof (cases n)
          case 0
          with Some k0 left Cons.IH [of 0 "map_option (\<lambda>c. c - 1) left" "Some x"]
          show ?thesis by simp
        next
          case (Suc n')
          have a: "length (take n (x # xs)) \<le> length (repl (take n (x # xs)))" by (rule assms)
          have b: "length xs - n' \<le> length (re_sub_from m repl (map_option (\<lambda>c. c - 1) left) (Some x) n' xs)"
            by (rule Cons.IH)
          from a b Some Suc k0 left show ?thesis by (simp add: min_def split: if_splits)
        qed
      qed
    qed
  qed
qed

lemma re_sub_from_longer:
  assumes repl: "\<And>g. length g < length (repl g)" and found: "re_search_from m prev s"
  shows "length s < length (re_sub_from m repl None prev 0 s)"
  using found
proof (induction s arbitrary: prev)
  case Nil
  then obtain n where "m prev [] = Some n" by auto
  with repl [of "[]"] show ?case by simp
next
  case (Cons x xs)
  have le: "\<And>g. length g \<le> length (repl g)" using repl by (simp add: less_imp_le)
  show ?case
  proof (cases "m prev (x # xs)")
    case None
    with Cons.prems have "re_search_from m (Some x) xs" by simp
    from Cons.IH [OF this] None show ?thesis by simp
  next
    case (Some n)
    show ?thesis
    proof (cases n)
      case 0
      have p: "0 < length (repl [])" using repl [of "[]"] by simp
      have q: "length xs \<le> length (re_sub_from m repl None (Some x) 0 xs)"
        using re_sub_from_length [of repl xs 0 m None "Some x", OF le] by simp
      have eq: "re_sub_from m repl None prev 0 (x # xs)
                  = repl [] @ x # re_sub_from m repl None (Some x) 0 xs"
        using Some 0 by simp
      from p q show ?thesis unfolding eq length_append list.size(4) by linarith
    next
      case (Suc n')
      have a: "length (take n (x # xs)) < length (repl (take n (x # xs)))" by (rule repl)
      have b: "length xs - n' \<le> length (re_sub_from m repl None (Some x) n' xs)"
        by (rule re_sub_from_length [OF le])
      from a b Some Suc show ?thesis by (simp add: min_def split: if_splits)
    qed
  qed
qed









section \<open>Properties of splitting and joining\<close>






section \<open>The ad unit\<close>





text \<open>
  C8: a content string that splits into fewer than 3 segments on \<open></p>\<close> is returned
  unchanged by \<open>add_google_adsense_units\<close>, whatever the configuration; in particular
  when ads are enabled and a client identifier is configured.
\<close>

theorem adsense_few_paragraphs_unchanged:
  "length (split_str ''</p>'' content) < 3 \<Longrightarrow> add_google_adsense_units self content = content"
  by (simp add: add_google_adsense_units_def Let_def)

theorem adsense_few_paragraphs_unchanged_witness:
  "adsense_enabled example_manager \<and> adsense_client_id example_manager \<noteq> []
     \<and> length (split_str ''</p>'' ''<p>one</p><p>two'') < 3
     \<and> add_google_adsense_units example_manager ''<p>one</p><p>two'' = ''<p>one</p><p>two''"
proof -
  have few: "length (split_str ''</p>'' ''<p>one</p><p>two'') < 3"
    by code_simp
  have cfg: "adsense_enabled example_manager \<and> adsense_client_id example_manager \<noteq> []"
    by (simp add: example_manager_def)
  from cfg few adsense_few_paragraphs_unchanged [OF few, of example_manager]
  show ?thesis by simp
qed





section \<open>Email capture\<close>




lemma email_unchanged: "\<not> re_search h2_pattern content \<Longrightarrow> add_email_capture content = content"
  by (simp add: add_email_capture_def)




end
